theory Spec2Isabelle
  imports Main "HOL-Library.Word" "HOL-Library.Char_ord" "HOL-Library.List_Lexorder"
begin

section \<open>The task record (types/Task.ts)\<close>

text \<open>
  \<^verbatim>\<open>export type TaskId = string;
  export interface Task { id: TaskId; title: string; description?: string;
                          createdAt: string; updatedAt?: string; done: boolean; }\<close>
  An optional field that is absent and one that holds \<^verbatim>\<open>undefined\<close> read the same
  and are written the same by \<^verbatim>\<open>JSON.stringify\<close> (the key is left out), so both are
  \<open>None\<close>. The fields \<^verbatim>\<open>id\<close> and \<^verbatim>\<open>done\<close> carry a prime: \<open>id\<close> is HOL's
  identity function and \<open>done\<close> is a keyword. Timestamps are the ISO-8601 strings of
  \<^verbatim>\<open>Date.prototype.toISOString\<close>; they all have the same layout, so the later of two
  instants is the greater string in the lexicographic order.
\<close>

type_synonym TaskId = string

record Task =
  id' :: TaskId
  title :: string
  description :: "string option"
  createdAt :: string
  updatedAt :: "string option"
  done' :: bool

text \<open>
  The argument of \<^verbatim>\<open>create\<close>, \<^verbatim>\<open>Omit<Task, 'id' | 'createdAt' | 'updatedAt'>\<close>. The
  code reads \<^verbatim>\<open>task.done ?? false\<close>, so \<^verbatim>\<open>done\<close> may be missing at run time.
\<close>

record TaskInput =
  title_in :: string
  description_in :: "string option"
  done_in :: "bool option"

text \<open>
  The argument of \<^verbatim>\<open>update\<close>, \<^verbatim>\<open>Partial<Omit<Task, 'id' | 'createdAt'>>\<close>: each key
  is absent (\<open>None\<close>) or present with a value. For the two optional fields of a task
  the value present may itself be \<^verbatim>\<open>undefined\<close> (\<open>Some None\<close>): the form submits
  \<^verbatim>\<open>description: description.trim() || undefined\<close>. A \<^verbatim>\<open>title\<close> or \<^verbatim>\<open>done\<close> that is
  present holds a string or a boolean, as the declared types of a task say.
\<close>

record Partial =
  title_p :: "string option"
  description_p :: "string option option"
  updatedAt_p :: "string option option"
  done_p :: "bool option"

section \<open>The persisted blob and AsyncStorage\<close>

text \<open>
  What \<^verbatim>\<open>JSON.parse\<close> returns, as far as \<^verbatim>\<open>Array.isArray\<close> tells values apart: an
  array with its elements, or one of the other kinds of JSON value. The element type is
  a parameter: \<^verbatim>\<open>JSON.parse(raw) as Task[]\<close> is a cast and checks nothing.
\<close>

datatype 'a parsed = JArray "'a list" | JString | JNumber | JBoolean | JNull | JObject

text \<open>
  A stored string, by what \<^verbatim>\<open>getAll\<close> can observe of it: the empty string (falsy),
  a non-empty string on which \<^verbatim>\<open>JSON.parse\<close> throws, or the JSON text of a value.
  \<^verbatim>\<open>JSON.stringify\<close> of an array writes the text that \<^verbatim>\<open>JSON.parse\<close> reads back as
  that array: the fields of a task are strings and booleans, which the two built-ins
  carry over unchanged.
\<close>

datatype 'a raw = Blank | Garbage | Json "'a parsed"

datatype exn = SyntaxError | CryptoError

fun JSON_parse :: "'a raw \<Rightarrow> exn + 'a parsed" where
  "JSON_parse Blank = Inl SyntaxError"
| "JSON_parse Garbage = Inl SyntaxError"
| "JSON_parse (Json v) = Inr v"

definition JSON_stringify :: "'a list \<Rightarrow> 'a raw" where
  "JSON_stringify xs = Json (JArray xs)"

fun Array_isArray :: "'a parsed \<Rightarrow> bool" where
  "Array_isArray (JArray xs) = True"
| "Array_isArray _ = False"

text \<open>
  AsyncStorage is a key-value store of strings; \<^verbatim>\<open>getItem\<close> resolves to \<^verbatim>\<open>null\<close>
  (\<open>None\<close>) for a key that is not there. The backend is taken to answer every call:
  a rejected promise of the storage medium itself is outside this model.
\<close>

type_synonym 'a AsyncStorage = "string \<Rightarrow> 'a raw option"

definition getItem :: "string \<Rightarrow> 'a AsyncStorage \<Rightarrow> 'a raw option" where
  "getItem k s = s k"

definition setItem :: "string \<Rightarrow> 'a raw \<Rightarrow> 'a AsyncStorage \<Rightarrow> 'a AsyncStorage" where
  "setItem k v s = s(k \<mapsto> v)"

definition removeItem :: "string \<Rightarrow> 'a AsyncStorage \<Rightarrow> 'a AsyncStorage" where
  "removeItem k s = s(k := None)"

section \<open>The record store (storage/tasksStorage.ts)\<close>

definition STORAGE_KEY :: string where
  "STORAGE_KEY = ''@mycrud/tasks''"

text \<open>
  \<^verbatim>\<open>async function getAll(): Promise<Task[]> {
    const raw = await AsyncStorage.getItem(STORAGE_KEY);
    if (!raw) return [];
    try {
      const parsed = JSON.parse(raw) as Task[];
      return Array.isArray(parsed) ? parsed : [];
    } catch { return []; }
  }\<close>
\<close>

definition getAll :: "'a AsyncStorage \<Rightarrow> 'a list" where
  "getAll s =
     (case getItem STORAGE_KEY s of
        None \<Rightarrow> []
      | Some raw \<Rightarrow>
          if raw = Blank then []
          else (case JSON_parse raw of
                  Inl e \<Rightarrow> []
                | Inr parsed \<Rightarrow>
                    if Array_isArray parsed
                    then (case parsed of JArray xs \<Rightarrow> xs | _ \<Rightarrow> [])
                    else []))"

definition saveAll :: "'a list \<Rightarrow> 'a AsyncStorage \<Rightarrow> 'a AsyncStorage" where
  "saveAll tasks s = setItem STORAGE_KEY (JSON_stringify tasks) s"

definition readAll :: "'a AsyncStorage \<Rightarrow> 'a list" where
  "readAll s = getAll s"

definition clearAll :: "'a AsyncStorage \<Rightarrow> 'a AsyncStorage" where
  "clearAll s = removeItem STORAGE_KEY s"

subsection \<open>Identifiers\<close>

text \<open>
  \<^verbatim>\<open>function cryptoRandomId(): string {
    // Usa Web Crypto quando disponivel no ambiente
    try {
      const bytes = new Uint8Array(16);
      (globalThis.crypto || (globalThis as any).nativeCrypto)?.getRandomValues?.(bytes);
      return Array.from(bytes, b => b.toString(16).padStart(2, '0')).join('');
    } catch {
      return Math.random().toString(36).slice(2) + Date.now().toString(36);
    }
  }\<close>
  The run-time environment decides what the optional call does. \<open>Missing\<close>: neither
  \<^verbatim>\<open>globalThis.crypto\<close> nor \<^verbatim>\<open>nativeCrypto\<close> is there, or it has no
  \<^verbatim>\<open>getRandomValues\<close>; the optional chain \<^verbatim>\<open>?.\<close> then yields \<^verbatim>\<open>undefined\<close>, nothing is
  called and nothing is thrown. \<open>Throws\<close>: the call raises. \<open>Fills f\<close>: the call
  stores the byte \<open>f k\<close> at index \<open>k\<close>.
\<close>

datatype web_crypto = Missing | Throws | Fills "nat \<Rightarrow> 8 word"

fun getRandomValues :: "web_crypto \<Rightarrow> 8 word list \<Rightarrow> exn + 8 word list" where
  "getRandomValues Missing bytes = Inr bytes"
| "getRandomValues Throws bytes = Inl CryptoError"
| "getRandomValues (Fills f) bytes = Inr (map f [0..<length bytes])"

text \<open>
  What one call of \<^verbatim>\<open>create\<close> reads from its environment: the clock
  (\<^verbatim>\<open>new Date().toISOString()\<close>), the crypto object, and for the fallback the text of
  \<^verbatim>\<open>Math.random().toString(36)\<close> and the number \<^verbatim>\<open>Date.now()\<close>.
\<close>

record runtime =
  now_iso :: string
  crypto :: web_crypto
  math_random :: string
  date_now :: nat

text \<open>
  \<^verbatim>\<open>Number.prototype.toString(radix)\<close> of a natural number, for a radix from 2 to 36
  (the code uses 16 and 36): the digits are \<^verbatim>\<open>0\<close> to \<^verbatim>\<open>9\<close> and then \<^verbatim>\<open>a\<close> to \<^verbatim>\<open>z\<close>.
  \<^verbatim>\<open>padStart\<close> and \<^verbatim>\<open>slice\<close> are those of strings.
\<close>

definition digit :: "nat \<Rightarrow> char" where
  "digit d = ''0123456789abcdefghijklmnopqrstuvwxyz'' ! d"

function toString_radix :: "nat \<Rightarrow> nat \<Rightarrow> string" where
  "toString_radix r n =
     (if r < 2 \<or> n < r then [digit n] else toString_radix r (n div r) @ [digit (n mod r)])"
  by pat_completeness auto
termination
  by (relation "measure (\<lambda>(r, n). n)") auto

declare toString_radix.simps [simp del]

definition padStart :: "nat \<Rightarrow> char \<Rightarrow> string \<Rightarrow> string" where
  "padStart n c str = replicate (n - length str) c @ str"

definition slice_from :: "nat \<Rightarrow> string \<Rightarrow> string" where
  "slice_from n str = drop n str"

definition cryptoRandomId :: "runtime \<Rightarrow> string" where
  "cryptoRandomId rt =
     (case getRandomValues (crypto rt) (replicate 16 0) of
        Inr bytes \<Rightarrow> concat (map (\<lambda>b. padStart 2 (CHR ''0'') (toString_radix 16 (unat b))) bytes)
      | Inl e \<Rightarrow> slice_from 2 (math_random rt) @ toString_radix 36 (date_now rt))"

subsection \<open>create\<close>

text \<open>
  \<^verbatim>\<open>export async function create(task: Omit<Task, 'id' | 'createdAt' | 'updatedAt'>) {
    const tasks = await getAll();
    const now = new Date().toISOString();
    const newTask: Task = { id: cryptoRandomId(), title: task.title,
      description: task.description, createdAt: now, updatedAt: now,
      done: task.done ?? false };
    const updated = [newTask, ...tasks];
    await saveAll(updated);
    return newTask;
  }\<close>
\<close>

definition create :: "TaskInput \<Rightarrow> runtime \<Rightarrow> Task AsyncStorage \<Rightarrow> Task \<times> Task AsyncStorage" where
  "create task rt s =
     (let tasks = getAll s;
          now = now_iso rt;
          newTask = \<lparr> id' = cryptoRandomId rt,
                      title = title_in task,
                      description = description_in task,
                      createdAt = now,
                      updatedAt = Some now,
                      done' = (case done_in task of None \<Rightarrow> False | Some d \<Rightarrow> d) \<rparr>;
          updated = newTask # tasks
      in (newTask, saveAll updated s))"

definition readById :: "TaskId \<Rightarrow> Task AsyncStorage \<Rightarrow> Task option" where
  "readById i s = find (\<lambda>t. id' t = i) (getAll s)"

subsection \<open>update\<close>

text \<open>
  \<^verbatim>\<open>export async function update(id: TaskId, partial: Partial<Omit<Task, 'id' | 'createdAt'>>) {
    const tasks = await getAll();
    let updatedTask: Task | undefined;
    const updated = tasks.map(t => {
      if (t.id === id) {
        updatedTask = { ...t, ...partial, updatedAt: new Date().toISOString() };
        return updatedTask;
      }
      return t;
    });
    await saveAll(updated);
    return updatedTask;
  }\<close>
  The callback of \<^verbatim>\<open>map\<close> has two effects: it assigns \<^verbatim>\<open>updatedTask\<close> and it reads
  the clock, once for every element it matches. \<open>map_effect\<close> is \<^verbatim>\<open>Array.prototype.map\<close>
  for such a callback, left to right; the state it threads is the variable and the
  number of clock readings so far, and \<open>clock n\<close> is the \<open>n\<close>-th reading of
  \<^verbatim>\<open>new Date().toISOString()\<close> within the call.
\<close>

definition spread :: "Task \<Rightarrow> Partial \<Rightarrow> Task" where
  "spread t partial =
     t \<lparr> title := (case title_p partial of None \<Rightarrow> title t | Some v \<Rightarrow> v),
         description := (case description_p partial of None \<Rightarrow> description t | Some v \<Rightarrow> v),
         updatedAt := (case updatedAt_p partial of None \<Rightarrow> updatedAt t | Some v \<Rightarrow> v),
         done' := (case done_p partial of None \<Rightarrow> done' t | Some v \<Rightarrow> v) \<rparr>"

fun map_effect :: "('a \<Rightarrow> 's \<Rightarrow> 'b \<times> 's) \<Rightarrow> 'a list \<Rightarrow> 's \<Rightarrow> 'b list \<times> 's" where
  "map_effect f [] st = ([], st)"
| "map_effect f (x # xs) st =
     (case f x st of (y, st') \<Rightarrow>
        (case map_effect f xs st' of (ys, st'') \<Rightarrow> (y # ys, st'')))"

definition update_callback ::
  "TaskId \<Rightarrow> Partial \<Rightarrow> (nat \<Rightarrow> string) \<Rightarrow> Task \<Rightarrow> Task option \<times> nat \<Rightarrow> Task \<times> (Task option \<times> nat)" where
  "update_callback i partial clock t st =
     (if id' t = i
      then (let updatedTask = (spread t partial) \<lparr> updatedAt := Some (clock (snd st)) \<rparr>
            in (updatedTask, (Some updatedTask, Suc (snd st))))
      else (t, st))"

definition update ::
  "TaskId \<Rightarrow> Partial \<Rightarrow> (nat \<Rightarrow> string) \<Rightarrow> Task AsyncStorage \<Rightarrow> Task option \<times> Task AsyncStorage" where
  "update i partial clock s =
     (let tasks = getAll s
      in (case map_effect (update_callback i partial clock) tasks (None, 0) of
            (updated, (updatedTask, reads)) \<Rightarrow> (updatedTask, saveAll updated s)))"

subsection \<open>remove\<close>

text \<open>
  \<^verbatim>\<open>export async function remove(id: TaskId): Promise<void> {
    const tasks = await getAll();
    const filtered = tasks.filter(t => t.id !== id);
    await saveAll(filtered);
  }\<close>
\<close>

definition remove :: "TaskId \<Rightarrow> Task AsyncStorage \<Rightarrow> Task AsyncStorage" where
  "remove i s =
     (let tasks = getAll s;
          filtered = filter (\<lambda>t. id' t \<noteq> i) tasks
      in saveAll filtered s)"

section \<open>The task session (hooks/useTasks.ts)\<close>

text \<open>
  The hook's three state variables; a state of the whole program pairs them with the
  storage. \<^verbatim>\<open>setTasks(prev => ...)\<close> is the assignment of the new value. Each operation
  below is one call awaited to its end.
\<close>

record Session =
  tasks :: "Task list"
  loading :: bool
  error :: "string option"

definition initial :: Session where
  "initial = \<lparr> tasks = [], loading = True, error = None \<rparr>"

text \<open>
  \<^verbatim>\<open>const load = useCallback(async () => {
    setLoading(true); setError(null);
    try { const data = await store.readAll(); setTasks(data); }
    catch (e: any) { setError(e?.message ?? 'Erro ao carregar'); }
    finally { setLoading(false); }
  }, []);\<close>
  \<open>readAll\<close> raises nothing here, so the \<^verbatim>\<open>catch\<close> branch has no counterpart.
\<close>

definition load :: "Session \<times> Task AsyncStorage \<Rightarrow> Session \<times> Task AsyncStorage" where
  "load w =
     (case w of (ss, s) \<Rightarrow>
        (let ss1 = ss \<lparr> loading := True, error := None \<rparr>;
             data = readAll s;
             ss2 = ss1 \<lparr> tasks := data \<rparr>
         in (ss2 \<lparr> loading := False \<rparr>, s)))"

text \<open>
  \<^verbatim>\<open>const createTask = useCallback(async (input) => {
    const t = await store.create(input);
    setTasks(prev => [t, ...prev]);
  }, []);\<close>
\<close>

definition createTask ::
  "TaskInput \<Rightarrow> runtime \<Rightarrow> Session \<times> Task AsyncStorage \<Rightarrow> Session \<times> Task AsyncStorage" where
  "createTask input rt w =
     (case w of (ss, s) \<Rightarrow>
        (case create input rt s of (t, s') \<Rightarrow> (ss \<lparr> tasks := t # tasks ss \<rparr>, s')))"

text \<open>
  \<^verbatim>\<open>const updateTask = useCallback(async (id, partial) => {
    const t = await store.update(id, partial);
    if (t) { setTasks(prev => prev.map(p => (p.id === id ? t : p))); }
  }, []);\<close>
\<close>

definition updateTask ::
  "TaskId \<Rightarrow> Partial \<Rightarrow> (nat \<Rightarrow> string) \<Rightarrow> Session \<times> Task AsyncStorage \<Rightarrow> Session \<times> Task AsyncStorage" where
  "updateTask i partial clock w =
     (case w of (ss, s) \<Rightarrow>
        (case update i partial clock s of
           (None, s') \<Rightarrow> (ss, s')
         | (Some t, s') \<Rightarrow> (ss \<lparr> tasks := map (\<lambda>p. if id' p = i then t else p) (tasks ss) \<rparr>, s')))"

text \<open>
  \<^verbatim>\<open>const removeTask = useCallback(async (id: TaskId) => {
    await store.remove(id);
    setTasks(prev => prev.filter(p => p.id !== id));
  }, []);
  const clear = useCallback(async () => { await store.clearAll(); setTasks([]); }, []);\<close>
\<close>

definition removeTask :: "TaskId \<Rightarrow> Session \<times> Task AsyncStorage \<Rightarrow> Session \<times> Task AsyncStorage" where
  "removeTask i w =
     (case w of (ss, s) \<Rightarrow> (ss \<lparr> tasks := filter (\<lambda>p. id' p \<noteq> i) (tasks ss) \<rparr>, remove i s))"

definition clear :: "Session \<times> Task AsyncStorage \<Rightarrow> Session \<times> Task AsyncStorage" where
  "clear w = (case w of (ss, s) \<Rightarrow> (ss \<lparr> tasks := [] \<rparr>, clearAll s))"

text \<open>
  \<^verbatim>\<open>const stats = useMemo(() => {
    const total = tasks.length;
    const done = tasks.filter(t => t.done).length;
    return { total, done, pending: total - done };
  }, [tasks]);\<close>
  The fields \<^verbatim>\<open>total\<close>, \<^verbatim>\<open>done\<close> and \<^verbatim>\<open>pending\<close> carry the prefix \<open>stats_\<close>
  (\<open>total\<close> is a HOL constant). The numbers are integers, so that the subtraction is the
  program's.
\<close>

record Stats =
  stats_total :: int
  stats_done :: int
  stats_pending :: int

definition stats :: "Session \<Rightarrow> Stats" where
  "stats ss =
     (let total = int (length (tasks ss));
          dones = int (length (filter (\<lambda>t. done' t) (tasks ss)))
      in \<lparr> stats_total = total, stats_done = dones, stats_pending = total - dones \<rparr>)"

text \<open>
  A run of the session: the operations of the presentation layer, one after the other,
  each with what its call reads from the environment.
\<close>

datatype operation =
    CreateTask TaskInput runtime
  | UpdateTask TaskId Partial "nat \<Rightarrow> string"
  | RemoveTask TaskId

fun perform :: "operation \<Rightarrow> Session \<times> Task AsyncStorage \<Rightarrow> Session \<times> Task AsyncStorage" where
  "perform (CreateTask input rt) w = createTask input rt w"
| "perform (UpdateTask i partial clock) w = updateTask i partial clock w"
| "perform (RemoveTask i) w = removeTask i w"

fun run :: "operation list \<Rightarrow> Session \<times> Task AsyncStorage \<Rightarrow> Session \<times> Task AsyncStorage" where
  "run [] w = w"
| "run (x # xs) w = run xs (perform x w)"

text \<open>
  The persisted collection never holds two tasks with one id: in the state before each
  operation of the run, and in the state after the last.
\<close>

fun distinct_ids_during :: "operation list \<Rightarrow> Session \<times> Task AsyncStorage \<Rightarrow> bool" where
  "distinct_ids_during [] w = distinct (map id' (readAll (snd w)))"
| "distinct_ids_during (x # xs) w =
     (distinct (map id' (readAll (snd w))) \<and> distinct_ids_during xs (perform x w))"

text \<open>The ids that the \<open>createTask\<close> calls of a run generate, in the order of the calls.\<close>

fun created_ids :: "operation list \<Rightarrow> TaskId list" where
  "created_ids [] = []"
| "created_ids (CreateTask input rt # xs) = cryptoRandomId rt # created_ids xs"
| "created_ids (UpdateTask i partial clock # xs) = created_ids xs"
| "created_ids (RemoveTask i # xs) = created_ids xs"

section \<open>Concrete states and inputs\<close>

text \<open>
  A storage with no key, two instants, a clock that reads the same instant again and one
  that has moved on, the inputs of the scenarios, a runtime without Web Crypto and one
  with it.
\<close>

definition empty_storage :: "'a AsyncStorage" where
  "empty_storage = (\<lambda>k. None)"

definition instant0 :: string where
  "instant0 = ''2026-02-13T10:30:00.000Z''"

definition instant1 :: string where
  "instant1 = ''2026-02-13T10:31:07.250Z''"

definition stopped_clock :: "nat \<Rightarrow> string" where
  "stopped_clock n = instant0"

definition later_clock :: "nat \<Rightarrow> string" where
  "later_clock n = instant1"

definition buy_milk :: TaskInput where
  "buy_milk = \<lparr> title_in = ''Buy milk'', description_in = None, done_in = Some False \<rparr>"

definition buy_bread :: TaskInput where
  "buy_bread = \<lparr> title_in = ''Buy bread'', description_in = None, done_in = None \<rparr>"

definition mark_done :: Partial where
  "mark_done = \<lparr> title_p = None, description_p = None, updatedAt_p = None, done_p = Some True \<rparr>"

definition milk :: Task where
  "milk = \<lparr> id' = ''a1'', title = ''Buy milk'', description = None,
            createdAt = instant0, updatedAt = Some instant0, done' = False \<rparr>"

definition bread :: Task where
  "bread = \<lparr> id' = ''b2'', title = ''Buy bread'', description = Some ''wholemeal'',
             createdAt = instant0, updatedAt = Some instant0, done' = False \<rparr>"

definition milk_store :: "Task AsyncStorage" where
  "milk_store = saveAll [milk] empty_storage"

definition two_store :: "Task AsyncStorage" where
  "two_store = saveAll [bread, milk] empty_storage"

definition shared_id_store :: "Task AsyncStorage" where
  "shared_id_store = saveAll [milk, bread \<lparr> id' := ''a1'' \<rparr>] empty_storage"

definition no_crypto :: runtime where
  "no_crypto = \<lparr> now_iso = instant0, crypto = Missing,
                  math_random = ''0.4fzyo82mvyr'', date_now = 1770978600000 \<rparr>"

definition web_crypto_runtime :: runtime where
  "web_crypto_runtime = \<lparr> now_iso = instant1, crypto = Fills (\<lambda>k. of_nat (17 * k + 3)),
                           math_random = ''0.4fzyo82mvyr'', date_now = 1770978667250 \<rparr>"

definition bare_string_store :: "Task AsyncStorage" where
  "bare_string_store = setItem STORAGE_KEY (Json JString) empty_storage"

definition numbers_store :: "int AsyncStorage" where
  "numbers_store = setItem STORAGE_KEY (Json (JArray [1, 2, 3])) empty_storage"

section \<open>Lemmas on the store\<close>

lemma getAll_saveAll: "getAll (saveAll xs s) = xs"
  by (simp add: getAll_def getItem_def saveAll_def setItem_def JSON_stringify_def)

lemma readAll_saveAll: "readAll (saveAll xs s) = xs"
  by (simp add: readAll_def getAll_saveAll)

lemma map_effect_append:
  "map_effect f (xs @ ys) st =
     (case map_effect f xs st of (xs', st') \<Rightarrow>
        (case map_effect f ys st' of (ys', st'') \<Rightarrow> (xs' @ ys', st'')))"
  by (induction xs arbitrary: st) (auto split: prod.splits)

lemma map_effect_no_match:
  "\<forall>t\<in>set ts. id' t \<noteq> i \<Longrightarrow> map_effect (update_callback i p c) ts st = (ts, st)"
  by (induction ts arbitrary: st) (auto simp: update_callback_def)

lemma map_effect_one_match:
  assumes "\<forall>t\<in>set xs. id' t \<noteq> i" and "\<forall>t\<in>set ys. id' t \<noteq> i" and "id' t = i"
  shows "map_effect (update_callback i p c) (xs @ t # ys) (u, n) =
           (xs @ (spread t p)\<lparr>updatedAt := Some (c n)\<rparr> # ys,
            (Some ((spread t p)\<lparr>updatedAt := Some (c n)\<rparr>), Suc n))"
  using assms by (simp add: map_effect_append map_effect_no_match update_callback_def Let_def)

lemma update_not_found:
  "\<forall>t\<in>set (getAll s). id' t \<noteq> i \<Longrightarrow> update i p c s = (None, saveAll (getAll s) s)"
  by (simp add: update_def map_effect_no_match)

lemma update_found:
  assumes "getAll s = xs @ t # ys"
    and "\<forall>t\<in>set xs. id' t \<noteq> i" and "\<forall>t\<in>set ys. id' t \<noteq> i" and "id' t = i"
  shows "update i p c s =
           (Some ((spread t p)\<lparr>updatedAt := Some (c 0)\<rparr>),
            saveAll (xs @ (spread t p)\<lparr>updatedAt := Some (c 0)\<rparr> # ys) s)"
  using assms by (simp add: update_def map_effect_one_match)

lemma spread_keeps: "id' (spread t p) = id' t" "createdAt (spread t p) = createdAt t"
  by (simp_all add: spread_def)

lemma create_result:
  "create task rt s =
     (\<lparr> id' = cryptoRandomId rt, title = title_in task, description = description_in task,
        createdAt = now_iso rt, updatedAt = Some (now_iso rt),
        done' = (case done_in task of None \<Rightarrow> False | Some d \<Rightarrow> d) \<rparr>,
      saveAll (\<lparr> id' = cryptoRandomId rt, title = title_in task, description = description_in task,
        createdAt = now_iso rt, updatedAt = Some (now_iso rt),
        done' = (case done_in task of None \<Rightarrow> False | Some d \<Rightarrow> d) \<rparr> # getAll s) s)"
  by (simp add: create_def Let_def)

lemma saveAll_saveAll: "saveAll xs (saveAll ys s) = saveAll xs s"
  by (simp add: saveAll_def setItem_def)

lemma remove_twice: "remove i (remove i s) = remove i s"
  by (simp add: remove_def getAll_saveAll saveAll_saveAll)

lemma getAll_remove: "getAll (remove i s) = filter (\<lambda>t. id' t \<noteq> i) (getAll s)"
  by (simp add: remove_def getAll_saveAll)

lemma filter_no_match: "\<forall>t\<in>set ts. id' t \<noteq> i \<Longrightarrow> filter (\<lambda>t. id' t \<noteq> i) ts = ts"
  by (induction ts) auto

lemma mirror_map_one_match:
  assumes "\<forall>t\<in>set xs. id' t \<noteq> i" and "\<forall>t\<in>set ys. id' t \<noteq> i" and "id' t = i"
  shows "map (\<lambda>p. if id' p = i then t' else p) (xs @ t # ys) = xs @ t' # ys"
proof -
  have "\<And>zs. \<forall>t\<in>set zs. id' t \<noteq> i \<Longrightarrow> map (\<lambda>p. if id' p = i then t' else p) zs = zs"
    by (simp add: map_idI)
  with assms show ?thesis by simp
qed

lemma distinct_ids_split:
  assumes "distinct (map id' ts)" and "i \<in> id' ` set ts"
  shows "\<exists>xs t ys. ts = xs @ t # ys \<and> id' t = i \<and> (\<forall>u\<in>set xs. id' u \<noteq> i) \<and> (\<forall>u\<in>set ys. id' u \<noteq> i)"
proof -
  from assms(2) obtain t where "t \<in> set ts" and "id' t = i" by auto
  then obtain xs ys where ts: "ts = xs @ t # ys" by (auto dest: split_list)
  from assms(1) ts have "id' t \<notin> id' ` set xs" and "id' t \<notin> id' ` set ys"
    by simp_all
  with \<open>id' t = i\<close> have "(\<forall>u\<in>set xs. id' u \<noteq> i) \<and> (\<forall>u\<in>set ys. id' u \<noteq> i)"
    by (metis imageI)
  with ts \<open>id' t = i\<close> show ?thesis by blast
qed

text \<open>One step keeps the mirror equal to the store and the ids distinct.\<close>

lemma updateTask_keeps:
  assumes "tasks ss = getAll s" and "distinct (map id' (getAll s))"
  shows "tasks (fst (updateTask i p c (ss, s))) = getAll (snd (updateTask i p c (ss, s)))
         \<and> map id' (getAll (snd (updateTask i p c (ss, s)))) = map id' (getAll s)"
proof (cases "i \<in> id' ` set (getAll s)")
  case False
  then have "\<forall>t\<in>set (getAll s). id' t \<noteq> i" by auto
  then show ?thesis using assms(1)
    by (simp add: updateTask_def update_not_found getAll_saveAll)
next
  case True
  with assms(2) obtain xs t ys where ts: "getAll s = xs @ t # ys" and "id' t = i"
    and "\<forall>u\<in>set xs. id' u \<noteq> i" and "\<forall>u\<in>set ys. id' u \<noteq> i"
    using distinct_ids_split by blast
  let ?t = "(spread t p)\<lparr>updatedAt := Some (c 0)\<rparr>"
  have u: "update i p c s = (Some ?t, saveAll (xs @ ?t # ys) s)"
    using ts \<open>\<forall>u\<in>set xs. id' u \<noteq> i\<close> \<open>\<forall>u\<in>set ys. id' u \<noteq> i\<close> \<open>id' t = i\<close>
    by (rule update_found)
  have m: "map (\<lambda>q. if id' q = i then ?t else q) (tasks ss) = xs @ ?t # ys"
    unfolding assms(1) ts
    using \<open>\<forall>u\<in>set xs. id' u \<noteq> i\<close> \<open>\<forall>u\<in>set ys. id' u \<noteq> i\<close> \<open>id' t = i\<close>
    by (rule mirror_map_one_match)
  show ?thesis
    by (simp add: updateTask_def u m getAll_saveAll ts spread_keeps)
qed

lemma createTask_keeps:
  assumes "tasks ss = getAll s"
  shows "tasks (fst (createTask input rt (ss, s))) = getAll (snd (createTask input rt (ss, s)))
         \<and> map id' (getAll (snd (createTask input rt (ss, s)))) = cryptoRandomId rt # map id' (getAll s)"
  using assms by (simp add: createTask_def create_result getAll_saveAll)

lemma removeTask_keeps:
  assumes "tasks ss = getAll s"
  shows "tasks (fst (removeTask i (ss, s))) = getAll (snd (removeTask i (ss, s)))
         \<and> getAll (snd (removeTask i (ss, s))) = filter (\<lambda>t. id' t \<noteq> i) (getAll s)"
  using assms by (simp add: removeTask_def getAll_remove)


lemma run_keeps_mirror:
  "tasks (fst w) = getAll (snd w) \<Longrightarrow> distinct_ids_during ops w \<Longrightarrow>
   tasks (fst (run ops w)) = getAll (snd (run ops w))"
proof (induction ops arbitrary: w)
  case Nil
  then show ?case by simp
next
  case (Cons x ops)
  obtain ss s where w: "w = (ss, s)" by (cases w)
  with Cons.prems have m: "tasks ss = getAll s" and d: "distinct (map id' (getAll s))"
    and rest: "distinct_ids_during ops (perform x w)"
    by (simp_all add: readAll_def)
  have "tasks (fst (perform x w)) = getAll (snd (perform x w))"
  proof (cases x)
    case (CreateTask input rt)
    with createTask_keeps [OF m, of input rt] w show ?thesis by simp
  next
    case (UpdateTask i p c)
    with updateTask_keeps [OF m d, of i p c] w show ?thesis by simp
  next
    case (RemoveTask i)
    with removeTask_keeps [OF m, of i] w show ?thesis by simp
  qed
  with rest show ?case using Cons.IH by simp
qed

lemma update_callback_keeps_id: "id' (fst (update_callback i p c t st)) = id' t"
  by (simp add: update_callback_def spread_keeps Let_def)

lemma map_effect_keeps_ids:
  "map id' (fst (map_effect (update_callback i p c) ts st)) = map id' ts"
proof (induction ts arbitrary: st)
  case Nil
  then show ?case by simp
next
  case (Cons t ts)
  obtain y st' where f: "update_callback i p c t st = (y, st')"
    by (cases "update_callback i p c t st")
  obtain ys st'' where m: "map_effect (update_callback i p c) ts st' = (ys, st'')"
    by (cases "map_effect (update_callback i p c) ts st'")
  from f update_callback_keeps_id [of i p c t st] have "id' y = id' t" by simp
  moreover from m Cons.IH [of st'] have "map id' ys = map id' ts" by simp
  ultimately show ?case by (simp add: f m)
qed

lemma getAll_update_ids: "map id' (getAll (snd (update i p c s))) = map id' (getAll s)"
proof -
  obtain updated u n where m: "map_effect (update_callback i p c) (getAll s) (None, 0) = (updated, u, n)"
    by (cases "map_effect (update_callback i p c) (getAll s) (None, 0)") auto
  then have "map id' updated = map id' (getAll s)"
    using map_effect_keeps_ids [of i p c "getAll s" "(None, 0)"] by simp
  with m show ?thesis by (simp add: update_def getAll_saveAll)
qed

lemma getAll_perform_ids:
  "map id' (getAll (snd (perform x (ss, s)))) =
     (case x of
        CreateTask input rt \<Rightarrow> cryptoRandomId rt # map id' (getAll s)
      | UpdateTask i p c \<Rightarrow> map id' (getAll s)
      | RemoveTask i \<Rightarrow> map id' (filter (\<lambda>t. id' t \<noteq> i) (getAll s)))"
proof (cases x)
  case (CreateTask input rt)
  then show ?thesis by (simp add: createTask_def create_result getAll_saveAll)
next
  case (UpdateTask i p c)
  have "snd (updateTask i p c (ss, s)) = snd (update i p c s)"
    by (simp add: updateTask_def split: prod.splits option.splits)
  with UpdateTask show ?thesis by (simp add: getAll_update_ids)
next
  case (RemoveTask i)
  then show ?thesis by (simp add: removeTask_def getAll_remove)
qed

text \<open>
  When the ids of the loaded collection and the ids that the run generates are pairwise
  distinct, the collection holds no two tasks with one id at any point of the run.
\<close>

lemma distinct_ids_during_if_never_reused:
  "distinct (map id' (getAll (snd w)) @ created_ids ops) \<Longrightarrow> distinct_ids_during ops w"
proof (induction ops arbitrary: w)
  case Nil
  then show ?case by (simp add: readAll_def)
next
  case (Cons x ops)
  obtain ss s where w: "w = (ss, s)" by (cases w)
  from Cons.prems w have d: "distinct (map id' (getAll s))" by simp
  have e: "map id' (getAll (snd (perform x w))) =
     (case x of
        CreateTask input rt \<Rightarrow> cryptoRandomId rt # map id' (getAll s)
      | UpdateTask i p c \<Rightarrow> map id' (getAll s)
      | RemoveTask i \<Rightarrow> map id' (filter (\<lambda>t. id' t \<noteq> i) (getAll s)))"
    unfolding w by (rule getAll_perform_ids)
  have "distinct (map id' (getAll (snd (perform x w))) @ created_ids ops)"
    unfolding e using Cons.prems w by (cases x) (auto simp: distinct_map_filter)
  then have "distinct_ids_during ops (perform x w)" by (rule Cons.IH)
  with d w show ?case by (simp add: readAll_def)
qed

lemma load_mirror: "tasks (fst (load (ss, s))) = getAll (snd (load (ss, s)))"
  by (simp add: load_def readAll_def Let_def)

section \<open>Lemmas on the identifiers\<close>

lemma concat_replicate_pair: "concat (replicate n [a, a]) = replicate (2 * n) a"
  by (induction n) auto

lemma toString_radix_small: "n < r \<Longrightarrow> toString_radix r n = [digit n]"
  by (subst toString_radix.simps) simp

lemma digit_0: "digit 0 = CHR ''0''"
  by (simp add: digit_def)

lemma byte_as_two_hex_digits:
  assumes "n < 256"
  shows "padStart 2 (CHR ''0'') (toString_radix 16 n) = [digit (n div 16), digit (n mod 16)]"
proof (cases "n < 16")
  case True
  then show ?thesis
    by (simp add: toString_radix_small padStart_def digit_0)
next
  case False
  from assms have "n div 16 < 16" by simp
  then have "toString_radix 16 (n div 16) = [digit (n div 16)]"
    by (rule toString_radix_small)
  with False have "toString_radix 16 n = [digit (n div 16), digit (n mod 16)]"
    by (subst toString_radix.simps) simp
  then show ?thesis by (simp add: padStart_def)
qed

lemma digit_is_lowercase_hex:
  assumes "d < 16"
  shows "digit d \<in> set ''0123456789abcdef''"
proof -
  from assms have "d \<in> set [0..<16]" by simp
  then show ?thesis
    unfolding digit_def by (simp add: upt_rec) (elim disjE; simp)
qed

lemma cryptoRandomId_Fills:
  assumes "crypto rt = Fills f"
  shows "cryptoRandomId rt
           = concat (map (\<lambda>k. [digit (unat (f k) div 16), digit (unat (f k) mod 16)]) [0..<16])"
proof -
  have "unat b < 256" for b :: "8 word"
    using unsigned_less [of b, where ?'a = nat] by simp
  then show ?thesis
    using assms by (simp add: cryptoRandomId_def byte_as_two_hex_digits comp_def del: upt_rec_numeral)
qed

lemma concat_map_subset:
  "(\<And>k. set (g k) \<subseteq> S) \<Longrightarrow> set (concat (map g ks)) \<subseteq> S"
  by (induction ks) auto

lemma cryptoRandomId_Fills_shape:
  assumes "crypto rt = Fills f"
  shows "length (cryptoRandomId rt) = 32 \<and> set (cryptoRandomId rt) \<subseteq> set ''0123456789abcdef''"
proof -
  have l: "length (cryptoRandomId rt) = 32"
    unfolding cryptoRandomId_Fills [OF assms]
    by (simp add: length_concat comp_def sum_list_triv del: upt_rec_numeral)
  have "set [digit (unat b div 16), digit (unat b mod 16)] \<subseteq> set ''0123456789abcdef''"
    for b :: "8 word"
  proof -
    have "unat b div 16 < 16"
      using unsigned_less [of b, where ?'a = nat] by simp
    then have "digit (unat b div 16) \<in> set ''0123456789abcdef''"
      by (rule digit_is_lowercase_hex)
    moreover have "digit (unat b mod 16) \<in> set ''0123456789abcdef''"
      by (rule digit_is_lowercase_hex) simp
    ultimately show ?thesis by simp
  qed
  then have "set (cryptoRandomId rt) \<subseteq> set ''0123456789abcdef''"
    unfolding cryptoRandomId_Fills [OF assms] by (rule concat_map_subset)
  with l show ?thesis by simp
qed

lemma cryptoRandomId_Throws:
  "crypto rt = Throws \<Longrightarrow>
   cryptoRandomId rt = slice_from 2 (math_random rt) @ toString_radix 36 (date_now rt)"
  by (simp add: cryptoRandomId_def)

lemma cryptoRandomId_Missing:
  assumes "crypto rt = Missing"
  shows "cryptoRandomId rt = replicate 32 (CHR ''0'')"
proof -
  have "padStart 2 (CHR ''0'') (toString_radix 16 0) = ''00''"
    using byte_as_two_hex_digits [of 0] by (simp add: digit_0)
  with assms show ?thesis
    by (simp add: cryptoRandomId_def map_replicate_const concat_replicate_pair)
qed

lemma crypto_no_crypto: "crypto no_crypto = Missing"
  by (simp add: no_crypto_def)

lemma length_web_crypto_id: "length (cryptoRandomId web_crypto_runtime) = 32"
proof -
  have "crypto web_crypto_runtime = Fills (\<lambda>k. of_nat (17 * k + 3))"
    by (simp add: web_crypto_runtime_def)
  then show ?thesis using cryptoRandomId_Fills_shape by blast
qed

text \<open>
  In a runtime without Web Crypto the session itself writes two tasks with one id: after
  two \<open>createTask\<close> calls from an empty storage, one \<open>updateTask\<close> leaves the
  mirror with twice the task that \<open>update\<close> returned, and the storage with both
  tasks.
\<close>

lemma session_without_crypto_diverges:
  "map title (tasks (fst (run [CreateTask buy_milk no_crypto, CreateTask buy_bread no_crypto,
                    UpdateTask (cryptoRandomId no_crypto) mark_done later_clock]
        (load (initial, empty_storage)))))
     = [''Buy milk'', ''Buy milk'']
   \<and> map title (readAll (snd (run [CreateTask buy_milk no_crypto, CreateTask buy_bread no_crypto,
                        UpdateTask (cryptoRandomId no_crypto) mark_done later_clock]
        (load (initial, empty_storage)))))
     = [''Buy bread'', ''Buy milk'']"
proof -
  have e: "getAll (empty_storage :: Task AsyncStorage) = []"
    by (simp add: getAll_def getItem_def empty_storage_def)
  show ?thesis
    by (simp add: load_def initial_def createTask_def create_result updateTask_def update_def
        readAll_def getAll_saveAll e update_callback_def spread_def mark_done_def buy_milk_def
        buy_bread_def Let_def)
qed

section \<open>The claims\<close>

subsection \<open>Reading the blob\<close>

text \<open>
  C4: whatever the state of the persisted blob that is not the text of an array (the key
  is absent; the string is there but \<^verbatim>\<open>JSON.parse\<close> throws on it, the empty string
  included; it decodes to a value that is not an array), \<open>readAll\<close> returns the empty
  sequence. The \<^verbatim>\<open>SyntaxError\<close> is caught inside \<open>getAll\<close>, whose result is a plain
  list: no error reaches the caller.
\<close>

theorem readAll_empty_on_missing_or_corrupt_blob:
  assumes "getItem STORAGE_KEY s = None
           \<or> (\<exists>raw. getItem STORAGE_KEY s = Some raw
                \<and> (JSON_parse raw = Inl SyntaxError
                    \<or> (\<exists>v. JSON_parse raw = Inr v \<and> \<not> Array_isArray v)))"
  shows "readAll s = []"
  using assms by (auto simp: readAll_def getAll_def split: option.splits sum.splits parsed.splits)

text \<open>The blob is a bare string: \<open>readAll\<close> returns the empty sequence.\<close>

theorem readAll_empty_on_corrupt_blob_witness:
  "getItem STORAGE_KEY (bare_string_store :: Task AsyncStorage) = Some (Json JString)
   \<and> readAll (bare_string_store :: Task AsyncStorage) = []"
proof -
  have g: "getItem STORAGE_KEY bare_string_store = Some (Json JString)"
    by (simp add: bare_string_store_def getItem_def setItem_def)
  then have "getItem STORAGE_KEY bare_string_store = None
           \<or> (\<exists>raw. getItem STORAGE_KEY bare_string_store = Some raw
                \<and> (JSON_parse raw = Inl SyntaxError
                    \<or> (\<exists>v. JSON_parse raw = Inr v \<and> \<not> Array_isArray (v :: Task parsed))))"
    by simp
  from g readAll_empty_on_missing_or_corrupt_blob [OF this] show ?thesis by simp
qed

text \<open>
  C10: \<open>readAll\<close> validates no element. When the persisted blob decodes to an array,
  \<open>readAll\<close> returns the elements of that array as they were decoded, whatever they
  are: the statement holds for every type of element, not only for task records.
\<close>

theorem readAll_returns_elements_as_decoded:
  assumes "getItem STORAGE_KEY s = Some raw" and "JSON_parse raw = Inr (JArray xs)"
  shows "readAll s = xs"
proof -
  from assms(2) have "raw = Json (JArray xs)" by (cases raw) simp_all
  with assms(1) show ?thesis by (simp add: readAll_def getAll_def)
qed

text \<open>A stored array of numbers is returned as it is.\<close>

theorem readAll_returns_elements_as_decoded_witness:
  "getItem STORAGE_KEY numbers_store = Some (Json (JArray [1, 2, 3]))
   \<and> readAll numbers_store = [1, 2, 3]"
proof -
  have g: "getItem STORAGE_KEY numbers_store = Some (Json (JArray [1, 2, 3]))"
    by (simp add: numbers_store_def getItem_def setItem_def)
  have p: "JSON_parse (Json (JArray [1, 2, 3 :: int])) = Inr (JArray [1, 2, 3])" by simp
  from g readAll_returns_elements_as_decoded [OF g p] show ?thesis by simp
qed

text \<open>
  C8: after \<open>clearAll\<close> the key is gone from the storage, which is another state than
  the one \<open>saveAll []\<close> leaves (the key holding the text of the empty array), and
  \<open>readAll\<close> returns the empty sequence.
\<close>

theorem clearAll_removes_the_key:
  "getItem STORAGE_KEY (clearAll s) = None
   \<and> getItem STORAGE_KEY (saveAll [] s) = Some (Json (JArray []))
   \<and> clearAll s \<noteq> saveAll [] s
   \<and> readAll (clearAll s) = []"
proof -
  have a: "getItem STORAGE_KEY (clearAll s) = None"
    by (simp add: clearAll_def removeItem_def getItem_def)
  have b: "getItem STORAGE_KEY (saveAll [] s) = Some (Json (JArray []))"
    by (simp add: saveAll_def setItem_def getItem_def JSON_stringify_def)
  from a b have c: "clearAll s \<noteq> saveAll [] s" by auto
  from a have d: "readAll (clearAll s) = []" by (simp add: readAll_def getAll_def)
  from a b c d show ?thesis by simp
qed

subsection \<open>create\<close>

text \<open>
  C3: for every prior state of the storage and every input, \<open>create\<close> returns a task
  whose \<open>createdAt\<close> is the clock reading of the call and whose \<open>updatedAt\<close> is the same
  instant, with \<open>done\<close> the value supplied or \<open>False\<close> when none is, and with the
  title and description of the input; a following \<open>readAll\<close> returns the new task at
  index 0, followed by the prior collection, unchanged and in its order.
\<close>

theorem create_prepends_new_task:
  "createdAt (fst (create task rt s)) = now_iso rt
   \<and> updatedAt (fst (create task rt s)) = Some (createdAt (fst (create task rt s)))
   \<and> done' (fst (create task rt s)) = (case done_in task of None \<Rightarrow> False | Some d \<Rightarrow> d)
   \<and> title (fst (create task rt s)) = title_in task
   \<and> description (fst (create task rt s)) = description_in task
   \<and> readAll (snd (create task rt s)) = fst (create task rt s) # readAll s"
  by (simp add: create_result readAll_def getAll_saveAll)

text \<open>A task created with no \<^verbatim>\<open>done\<close>, in a storage that holds one task.\<close>

theorem create_prepends_new_task_witness:
  "readAll (snd (create buy_bread web_crypto_runtime milk_store))
     = [\<lparr> id' = cryptoRandomId web_crypto_runtime, title = ''Buy bread'', description = None,
          createdAt = instant1, updatedAt = Some instant1, done' = False \<rparr>, milk]"
proof -
  have n: "now_iso web_crypto_runtime = instant1" by (simp add: web_crypto_runtime_def)
  have r: "readAll milk_store = [milk]" by (simp add: milk_store_def readAll_saveAll)
  from create_prepends_new_task [of buy_bread web_crypto_runtime milk_store] show ?thesis
    by (simp add: create_result buy_bread_def n r)
qed

text \<open>
  C5: \<open>create\<close> is to return an id that no task of the collection has, from sixteen
  random bytes, with the base-36 fallback for a runtime that has no secure random source.
  In a runtime with no crypto object the optional chain calls nothing and throws nothing:
  the \<^verbatim>\<open>catch\<close> branch with the fallback is not taken, the sixteen bytes keep their
  initial zeros, and the id is thirty-two times the character 0. The second task created
  in such a runtime gets the id of the first.
\<close>

theorem create_without_crypto_repeats_the_id:
  "cryptoRandomId no_crypto = replicate 32 (CHR ''0'')
   \<and> id' (fst (create buy_milk no_crypto empty_storage)) = replicate 32 (CHR ''0'')
   \<and> id' (fst (create buy_bread no_crypto (snd (create buy_milk no_crypto empty_storage))))
       = id' (fst (create buy_milk no_crypto empty_storage))
   \<and> map id' (readAll (snd (create buy_bread no_crypto (snd (create buy_milk no_crypto empty_storage)))))
       = [replicate 32 (CHR ''0''), replicate 32 (CHR ''0'')]"
proof -
  have "cryptoRandomId no_crypto = replicate 32 (CHR ''0'')"
    using crypto_no_crypto by (rule cryptoRandomId_Missing)
  moreover have "getAll (empty_storage :: Task AsyncStorage) = []"
    by (simp add: getAll_def getItem_def empty_storage_def)
  ultimately show ?thesis
    by (simp add: create_result readAll_def getAll_saveAll)
qed

subsection \<open>update\<close>

text \<open>
  The sentence of C2 on \<open>updatedAt\<close> fails: \<open>update\<close> writes the clock reading of the
  call, whatever the stored value is. When the clock reads the instant the task already
  carries (an update in the millisecond of the creation, or a clock that was set back),
  \<open>updatedAt\<close> after the update is not later than before.
\<close>

theorem update_in_same_instant_keeps_updatedAt:
  "readAll milk_store = [milk]
   \<and> fst (update ''a1'' mark_done stopped_clock milk_store) = Some (milk \<lparr> done' := True \<rparr>)
   \<and> readAll (snd (update ''a1'' mark_done stopped_clock milk_store)) = [milk \<lparr> done' := True \<rparr>]
   \<and> updatedAt milk = Some instant0
   \<and> updatedAt (hd (readAll (snd (update ''a1'' mark_done stopped_clock milk_store)))) = Some instant0
   \<and> \<not> (the (updatedAt milk)
          < the (updatedAt (hd (readAll (snd (update ''a1'' mark_done stopped_clock milk_store))))))"
  by (simp add: milk_store_def readAll_def getAll_saveAll update_def update_callback_def
      spread_def mark_done_def stopped_clock_def milk_def Let_def)

text \<open>
  C2, amended: when exactly one task \<open>t\<close> of the collection has the id, at index
  \<open>length xs\<close>, \<open>update\<close> returns \<open>t\<close> with the fields of the partial merged over it
  (a field the partial does not have is kept), with \<open>updatedAt\<close> the clock reading of
  the call also when the partial has an \<open>updatedAt\<close>, and with \<open>id\<close> and \<open>createdAt\<close>
  as they were; the collection written has this task at the same index and every other
  task unchanged and in its place. The new \<open>updatedAt\<close> is the clock reading: it is
  later than the prior one only when the clock is.
\<close>

theorem update_merges_in_place:
  assumes "readAll s = xs @ t # ys"
    and "id' t = i"
    and "\<forall>u\<in>set xs. id' u \<noteq> i"
    and "\<forall>u\<in>set ys. id' u \<noteq> i"
  shows "\<exists>t'. fst (update i partial clock s) = Some t'
           \<and> t' = (spread t partial) \<lparr> updatedAt := Some (clock 0) \<rparr>
           \<and> title t' = (case title_p partial of None \<Rightarrow> title t | Some v \<Rightarrow> v)
           \<and> description t' = (case description_p partial of None \<Rightarrow> description t | Some v \<Rightarrow> v)
           \<and> done' t' = (case done_p partial of None \<Rightarrow> done' t | Some v \<Rightarrow> v)
           \<and> updatedAt t' = Some (clock 0)
           \<and> id' t' = id' t
           \<and> createdAt t' = createdAt t
           \<and> readAll (snd (update i partial clock s)) = xs @ t' # ys
           \<and> readAll (snd (update i partial clock s)) = (readAll s) [length xs := t']"
proof -
  let ?t = "(spread t partial) \<lparr> updatedAt := Some (clock 0) \<rparr>"
  from assms(1) have g: "getAll s = xs @ t # ys" by (simp add: readAll_def)
  from g assms(3) assms(4) assms(2)
  have u: "update i partial clock s = (Some ?t, saveAll (xs @ ?t # ys) s)"
    by (rule update_found)
  have f: "title ?t = (case title_p partial of None \<Rightarrow> title t | Some v \<Rightarrow> v)"
    "description ?t = (case description_p partial of None \<Rightarrow> description t | Some v \<Rightarrow> v)"
    "done' ?t = (case done_p partial of None \<Rightarrow> done' t | Some v \<Rightarrow> v)"
    "updatedAt ?t = Some (clock 0)" "id' ?t = id' t" "createdAt ?t = createdAt t"
    by (simp_all add: spread_def)
  have r: "readAll (snd (update i partial clock s)) = xs @ ?t # ys"
    by (simp add: u readAll_saveAll)
  have l: "(readAll s) [length xs := ?t] = xs @ ?t # ys"
    by (simp add: assms(1))
  from u f r l show ?thesis by simp
qed

text \<open>The task at index 1 of two is marked done at a later instant.\<close>

theorem update_merges_in_place_witness:
  "fst (update ''a1'' mark_done later_clock two_store)
     = Some (milk \<lparr> updatedAt := Some instant1, done' := True \<rparr>)
   \<and> readAll two_store = [bread, milk]
   \<and> readAll (snd (update ''a1'' mark_done later_clock two_store))
     = [bread, milk \<lparr> updatedAt := Some instant1, done' := True \<rparr>]"
proof -
  have r: "readAll two_store = [bread] @ milk # []"
    by (simp add: two_store_def readAll_saveAll)
  have i: "id' milk = ''a1''" by (simp add: milk_def)
  have x: "\<forall>u\<in>set [bread]. id' u \<noteq> ''a1''" by (simp add: bread_def)
  have y: "\<forall>u\<in>set ([] :: Task list). id' u \<noteq> ''a1''" by simp
  have m: "(spread milk mark_done) \<lparr> updatedAt := Some (later_clock 0) \<rparr>
             = milk \<lparr> updatedAt := Some instant1, done' := True \<rparr>"
    by (simp add: spread_def mark_done_def later_clock_def milk_def)
  from update_merges_in_place [OF r i x y, of mark_done later_clock] r m
  show ?thesis by auto
qed

text \<open>
  C6: when no task of the collection has the id, \<open>update\<close> returns the absent result
  and a following \<open>readAll\<close> returns the collection as it was; \<open>updateTask\<close> then
  leaves the session as it was, its mirror included, whatever the mirror holds.
\<close>

theorem update_unknown_id_changes_nothing:
  assumes "\<forall>t\<in>set (readAll s). id' t \<noteq> i"
  shows "fst (update i partial clock s) = None
         \<and> readAll (snd (update i partial clock s)) = readAll s
         \<and> fst (updateTask i partial clock (ss, s)) = ss
         \<and> readAll (snd (updateTask i partial clock (ss, s))) = readAll s"
proof -
  from assms have "update i partial clock s = (None, saveAll (getAll s) s)"
    unfolding readAll_def by (rule update_not_found)
  then show ?thesis by (simp add: updateTask_def readAll_def getAll_saveAll)
qed

text \<open>An id that neither of two stored tasks has.\<close>

theorem update_unknown_id_witness:
  "fst (update ''zz'' mark_done later_clock two_store) = None
   \<and> readAll (snd (update ''zz'' mark_done later_clock two_store)) = [bread, milk]
   \<and> tasks (fst (updateTask ''zz'' mark_done later_clock (load (initial, two_store)))) = [bread, milk]"
proof -
  have r: "readAll two_store = [bread, milk]"
    by (simp add: two_store_def readAll_saveAll)
  then have h: "\<forall>t\<in>set (readAll two_store). id' t \<noteq> ''zz''"
    by (simp add: bread_def milk_def)
  have l: "load (initial, two_store)
             = (initial \<lparr> tasks := [bread, milk], loading := False, error := None \<rparr>, two_store)"
    by (simp add: load_def r initial_def)
  from update_unknown_id_changes_nothing [OF h, of mark_done later_clock] r l
  show ?thesis by simp
qed

subsection \<open>remove\<close>

text \<open>
  C7: \<open>remove\<close> is idempotent. Removing an id that no task of the collection has
  leaves what \<open>readAll\<close> returns unchanged; in general \<open>readAll\<close> then returns the
  tasks with another id, in their order; and a second \<open>remove\<close> of the same id leaves
  the storage exactly as the first left it. \<open>remove\<close> has no failing branch: it is a
  total function of the id and the storage.
\<close>

theorem remove_is_idempotent:
  "((\<forall>t\<in>set (readAll s). id' t \<noteq> i) \<longrightarrow> readAll (remove i s) = readAll s)
   \<and> readAll (remove i s) = filter (\<lambda>t. id' t \<noteq> i) (readAll s)
   \<and> remove i (remove i s) = remove i s
   \<and> readAll (remove i (remove i s)) = readAll (remove i s)"
  by (simp add: readAll_def getAll_remove filter_no_match remove_twice)

text \<open>An unknown id, and a known id removed twice.\<close>

theorem remove_is_idempotent_witness:
  "readAll (remove ''zz'' two_store) = [bread, milk]
   \<and> readAll (remove ''a1'' two_store) = [bread]
   \<and> remove ''a1'' (remove ''a1'' two_store) = remove ''a1'' two_store
   \<and> readAll (remove ''a1'' (remove ''a1'' two_store)) = [bread]"
proof -
  have r: "readAll two_store = [bread, milk]"
    by (simp add: two_store_def readAll_saveAll)
  from remove_is_idempotent [of two_store "''zz''"] remove_is_idempotent [of two_store "''a1''"]
  show ?thesis by (simp add: r bread_def milk_def)
qed

subsection \<open>The session\<close>

text \<open>
  C9: in every state of the session, \<open>total\<close> is the length of the mirror, \<open>done\<close>
  counts the entries that are done, and \<open>total\<close> is \<open>done\<close> plus \<open>pending\<close>; so
  \<open>pending\<close> counts the entries that are not done.
\<close>

theorem stats_total_is_done_plus_pending:
  "stats_total (stats ss) = stats_done (stats ss) + stats_pending (stats ss)
   \<and> stats_total (stats ss) = int (length (tasks ss))
   \<and> stats_done (stats ss) = int (length (filter done' (tasks ss)))
   \<and> stats_pending (stats ss) = int (length (filter (\<lambda>t. \<not> done' t) (tasks ss)))"
proof -
  have "length (tasks ss)
          = length (filter done' (tasks ss)) + length (filter (\<lambda>t. \<not> done' t) (tasks ss))"
    by (simp add: sum_length_filter_compl)
  then show ?thesis by (simp add: stats_def Let_def)
qed

text \<open>
  C1 as it is stated fails when two tasks of the persisted collection share an id.
  \<open>update\<close> merges the partial over each of them, and each keeps its other fields;
  \<open>updateTask\<close> puts the one task that \<open>update\<close> returned, the last it matched, in the
  place of both. The mirror then holds twice the same task and the storage two
  different ones.
\<close>

theorem mirror_diverges_on_shared_id:
  "tasks (fst (run [UpdateTask ''a1'' mark_done stopped_clock] (load (initial, shared_id_store))))
     = [bread \<lparr> id' := ''a1'', done' := True \<rparr>, bread \<lparr> id' := ''a1'', done' := True \<rparr>]
   \<and> readAll (snd (run [UpdateTask ''a1'' mark_done stopped_clock] (load (initial, shared_id_store))))
     = [milk \<lparr> done' := True \<rparr>, bread \<lparr> id' := ''a1'', done' := True \<rparr>]
   \<and> tasks (fst (run [UpdateTask ''a1'' mark_done stopped_clock] (load (initial, shared_id_store))))
     \<noteq> readAll (snd (run [UpdateTask ''a1'' mark_done stopped_clock] (load (initial, shared_id_store))))"
  by (simp add: load_def initial_def shared_id_store_def updateTask_def update_def readAll_def
      getAll_saveAll update_callback_def spread_def mark_done_def stopped_clock_def milk_def
      bread_def Let_def)

text \<open>
  C1, amended: for every sequence of \<open>createTask\<close>, \<open>updateTask\<close> and \<open>removeTask\<close>
  run one after the other from a loaded session, if the persisted collection at no point
  of the run holds two tasks with one id, then the mirror at the end is the sequence
  that \<open>readAll\<close> returns at that point.
\<close>

theorem mirror_equals_store_while_ids_distinct:
  assumes "distinct_ids_during ops (load (ss, s))"
  shows "tasks (fst (run ops (load (ss, s)))) = readAll (snd (run ops (load (ss, s))))"
  unfolding readAll_def using load_mirror assms by (rule run_keeps_mirror)

text \<open>A task is created beside a stored one and marked done, and the stored one is removed.\<close>

theorem mirror_equals_store_witness:
  "tasks (fst (run [CreateTask buy_bread web_crypto_runtime,
                    UpdateTask (cryptoRandomId web_crypto_runtime) mark_done later_clock,
                    RemoveTask ''a1'']
        (load (initial, milk_store))))
   = readAll (snd (run [CreateTask buy_bread web_crypto_runtime,
                        UpdateTask (cryptoRandomId web_crypto_runtime) mark_done later_clock,
                        RemoveTask ''a1'']
        (load (initial, milk_store))))"
proof -
  have "cryptoRandomId web_crypto_runtime \<noteq> ''a1''"
    using length_web_crypto_id by auto
  then have "distinct (map id' (getAll (snd (load (initial, milk_store))))
      @ created_ids [CreateTask buy_bread web_crypto_runtime,
                     UpdateTask (cryptoRandomId web_crypto_runtime) mark_done later_clock,
                     RemoveTask ''a1''])"
    by (simp add: load_def milk_store_def getAll_saveAll milk_def Let_def)
  then have "distinct_ids_during
      [CreateTask buy_bread web_crypto_runtime,
       UpdateTask (cryptoRandomId web_crypto_runtime) mark_done later_clock,
       RemoveTask ''a1'']
      (load (initial, milk_store))"
    by (rule distinct_ids_during_if_never_reused)
  then show ?thesis by (rule mirror_equals_store_while_ids_distinct)
qed

end
